theory Spec2Isabelle
  imports Main "HOL-Library.Word" "HOL-Library.Multiset"
begin

section \<open>NameID formats (internal/idp/nameid.go)\<close>

text \<open>
  The four format URIs are constants of the SAML library; their values are the ones the
  README's table "Name ID Formats" lists. A \<open>saml.NameIDFormat\<close> is a string.
\<close>

type_synonym NameIDFormat = string

definition EmailAddressNameIDFormat :: NameIDFormat where
  "EmailAddressNameIDFormat = ''urn:oasis:names:tc:SAML:1.1:nameid-format:emailAddress''"

definition PersistentNameIDFormat :: NameIDFormat where
  "PersistentNameIDFormat = ''urn:oasis:names:tc:SAML:2.0:nameid-format:persistent''"

definition TransientNameIDFormat :: NameIDFormat where
  "TransientNameIDFormat = ''urn:oasis:names:tc:SAML:2.0:nameid-format:transient''"

definition UnspecifiedNameIDFormat :: NameIDFormat where
  "UnspecifiedNameIDFormat = ''urn:oasis:names:tc:SAML:1.1:nameid-format:unspecified''"

text \<open>
  \<open>NameIDFormats\<close> is a Go map literal. Its entries are kept as the list of the literal;
  a lookup goes through \<open>map_of\<close>, and a \<open>range\<close> loop over it visits the entries in an
  order the runtime chooses, which is a parameter of the function that iterates.
\<close>

definition NameIDFormats :: "(string \<times> NameIDFormat) list" where
  "NameIDFormats =
     [(''email'', EmailAddressNameIDFormat),
      (''persistent'', PersistentNameIDFormat),
      (''transient'', TransientNameIDFormat),
      (''unspecified'', UnspecifiedNameIDFormat)]"

definition GetNameIDFormat :: "string \<Rightarrow> NameIDFormat" where
  "GetNameIDFormat format =
     (case map_of NameIDFormats format of
        Some f \<Rightarrow> f
      | None \<Rightarrow> EmailAddressNameIDFormat)"

text \<open>
  \<open>GetNameIDFormatString\<close>: the loop \<open>for name, f := range NameIDFormats\<close> returns the
  first name whose format equals the argument, and \<open>email\<close> after the loop. The first
  argument is the order in which the runtime visits the map's entries.
\<close>

fun GetNameIDFormatString :: "(string \<times> NameIDFormat) list \<Rightarrow> NameIDFormat \<Rightarrow> string" where
  "GetNameIDFormatString [] format = ''email''"
| "GetNameIDFormatString ((name, f) # rest) format =
     (if f = format then name else GetNameIDFormatString rest format)"

text \<open>An iteration order of the map: every entry of the literal, each once.\<close>

definition iteration_order :: "(string \<times> NameIDFormat) list \<Rightarrow> bool" where
  "iteration_order order \<longleftrightarrow> mset order = mset NameIDFormats"

section \<open>Configuration (internal/config/config.go)\<close>

text \<open>
  An attribute value is a Go \<open>interface{}\<close> filled in by the YAML decoder. The values
  modelled are the ones an attribute of the configuration file can hold and the mapper
  is specified for: a scalar (null, boolean, integer, string), a \<open>[]string\<close> and a
  \<open>[]interface{}\<close> of scalars. Strings are byte strings (UTF-8), as in Go. Floating-point
  numbers, maps and nested sequences are left out.
\<close>

datatype scalar = SNil | SBool bool | SInt int | SString string

datatype attr_value = Scalar scalar | Strings "string list" | Slice "scalar list"

text \<open>
  \<open>Attributes\<close> is a Go map, which may be nil. Its entries are kept as a list, in the order
  in which the runtime visits them in a \<open>range\<close> loop.
\<close>

record User =
  Name :: string
  NameID :: string
  Attributes :: "(string \<times> attr_value) list option"

record ServiceProvider =
  EntityID :: string
  ACSURL :: string
  MetadataFile :: string
  NameIDFormat :: string
  Users :: "User list"
  baseDir :: string

text \<open>
  What the operating system and the XML decoder do is a parameter: \<open>filepath.IsAbs\<close>,
  \<open>filepath.Join\<close>, \<open>os.ReadFile\<close> and \<open>xml.Unmarshal\<close> into an entity descriptor. An
  error is the text of its message, on the left of the sum.
\<close>

record IndexedEndpoint =
  Binding :: string
  Location :: string
  Index :: int

record SPSSODescriptor =
  AssertionConsumerServices :: "IndexedEndpoint list"

record EntityDescriptor =
  md_EntityID :: string
  SPSSODescriptors :: "SPSSODescriptor list"

record os_env =
  IsAbs :: "string \<Rightarrow> bool"
  Join :: "string \<Rightarrow> string \<Rightarrow> string"
  ReadFile :: "string \<Rightarrow> string + string"
  Unmarshal :: "string \<Rightarrow> string + EntityDescriptor"

definition resolvePath :: "os_env \<Rightarrow> string \<Rightarrow> string \<Rightarrow> string" where
  "resolvePath env base path =
     (if path = '''' then ''''
      else if IsAbs env path then path
      else Join env base path)"

definition GetMetadataFilePath :: "os_env \<Rightarrow> ServiceProvider \<Rightarrow> string" where
  "GetMetadataFilePath env sp = resolvePath env (baseDir sp) (MetadataFile sp)"

text \<open>
  \<open>GetUserByName\<close>: the first user of the list with the name, or nil.
\<close>

fun GetUserByName_loop :: "User list \<Rightarrow> string \<Rightarrow> User option" where
  "GetUserByName_loop [] name = None"
| "GetUserByName_loop (u # us) name =
     (if Name u = name then Some u else GetUserByName_loop us name)"

definition GetUserByName :: "ServiceProvider \<Rightarrow> string \<Rightarrow> User option" where
  "GetUserByName sp name = GetUserByName_loop (Users sp) name"

section \<open>The conversions of the cast library\<close>

text \<open>
  \<open>attributeValues\<close> calls \<open>cast.ToStringSliceE\<close> and \<open>cast.ToString\<close> of
  github.com/spf13/cast (v1.10.0 in go.mod), which is not part of this repository. The
  definitions below follow the library's behaviour on the values of \<open>attr_value\<close>:
  \<^item> \<open>ToString\<close>: a string is itself, a boolean is \<open>true\<close> or \<open>false\<close>, an integer is its
    decimal numeral, nil is the empty string, and a value that is no scalar cannot be
    cast, for which \<open>ToString\<close> returns the empty string;
  \<^item> \<open>ToStringSliceE\<close>: a \<open>[]string\<close> is itself, a \<open>[]interface{}\<close> is the \<open>ToString\<close> of
    each element, a string is \<open>strings.Fields\<close> of it, nil is an error (\<open>None\<close>), and
    another scalar is the one-element slice of its \<open>ToString\<close>.
  \<open>strings.Fields\<close> splits a string around each run of white space as \<open>unicode.IsSpace\<close>
  defines it, and yields no empty field.
\<close>

definition digit_char :: "nat \<Rightarrow> char" where
  "digit_char d = ''0123456789'' ! d"

function decimal_nat :: "nat \<Rightarrow> string" where
  "decimal_nat n =
     (if n < 10 then [digit_char n] else decimal_nat (n div 10) @ [digit_char (n mod 10)])"
  by pat_completeness auto
termination
  by (relation "measure id") auto

definition decimal_int :: "int \<Rightarrow> string" where
  "decimal_int i = (if i < 0 then CHR ''-'' # decimal_nat (nat (- i)) else decimal_nat (nat i))"

fun scalar_ToString :: "scalar \<Rightarrow> string" where
  "scalar_ToString SNil = ''''"
| "scalar_ToString (SBool b) = (if b then ''true'' else ''false'')"
| "scalar_ToString (SInt i) = decimal_int i"
| "scalar_ToString (SString s) = s"

fun cast_ToString :: "attr_value \<Rightarrow> string" where
  "cast_ToString (Scalar x) = scalar_ToString x"
| "cast_ToString (Strings xs) = ''''"
| "cast_ToString (Slice xs) = ''''"

text \<open>
  White space, on the bytes of a UTF-8 string: \<open>space_width s\<close> is the number of bytes of
  the white-space character that \<open>s\<close> starts with, and 0 when it starts with none. The
  characters are U+0009 to U+000D, U+0020, U+0085, U+00A0, U+1680, U+2000 to U+200A,
  U+2028, U+2029, U+202F, U+205F and U+3000.
\<close>

definition asciiSpace :: "char \<Rightarrow> bool" where
  "asciiSpace c \<longleftrightarrow> c \<in> {CHR 0x09, CHR 0x0A, CHR 0x0B, CHR 0x0C, CHR 0x0D, CHR 0x20}"

fun space_width :: "string \<Rightarrow> nat" where
  "space_width [] = 0"
| "space_width (c # cs) =
     (if asciiSpace c then 1
      else if c = CHR 0xC2 \<and> (take 1 cs = [CHR 0x85] \<or> take 1 cs = [CHR 0xA0]) then 2
      else if c = CHR 0xE1 \<and> take 2 cs = [CHR 0x9A, CHR 0x80] then 3
      else if c = CHR 0xE2 \<and> take 1 cs = [CHR 0x80] \<and> length cs \<ge> 2 \<and>
              (of_char (cs ! 1) \<in> {0x80 .. (0x8A::nat)} \<or>
               cs ! 1 \<in> {CHR 0xA8, CHR 0xA9, CHR 0xAF}) then 3
      else if c = CHR 0xE2 \<and> take 2 cs = [CHR 0x81, CHR 0x9F] then 3
      else if c = CHR 0xE3 \<and> take 2 cs = [CHR 0x80, CHR 0x80] then 3
      else 0)"

text \<open>
  \<open>Fields_loop skip cur s\<close>: \<open>skip\<close> bytes of a white-space character are still to be
  passed over, \<open>cur\<close> is the field read so far.
\<close>

fun Fields_loop :: "nat \<Rightarrow> string \<Rightarrow> string \<Rightarrow> string list" where
  "Fields_loop skip cur [] = (if cur = [] then [] else [cur])"
| "Fields_loop (Suc k) cur (c # cs) = Fields_loop k cur cs"
| "Fields_loop 0 cur (c # cs) =
     (if space_width (c # cs) = 0 then Fields_loop 0 (cur @ [c]) cs
      else (if cur = [] then [] else [cur]) @ Fields_loop (space_width (c # cs) - 1) [] cs)"

definition strings_Fields :: "string \<Rightarrow> string list" where
  "strings_Fields s = Fields_loop 0 [] s"

fun cast_ToStringSliceE :: "attr_value \<Rightarrow> string list option" where
  "cast_ToStringSliceE (Strings xs) = Some xs"
| "cast_ToStringSliceE (Slice xs) = Some (map scalar_ToString xs)"
| "cast_ToStringSliceE (Scalar (SString s)) = Some (strings_Fields s)"
| "cast_ToStringSliceE (Scalar SNil) = None"
| "cast_ToStringSliceE (Scalar x) = Some [scalar_ToString x]"

section \<open>The registry of service providers (ServiceProviderProvider)\<close>

text \<open>
  The mutex of the provider guards concurrent access and has no part in a sequential
  run; it is left out, here and in the session provider.
\<close>

record ServiceProviderEntry =
  Metadata :: EntityDescriptor
  Config :: ServiceProvider

record ServiceProviderProvider =
  sps :: "string \<rightharpoonup> ServiceProviderEntry"

definition HTTPPostBinding :: string where
  "HTTPPostBinding = ''urn:oasis:names:tc:SAML:2.0:bindings:HTTP-POST''"

definition createEntry :: "os_env \<Rightarrow> ServiceProvider \<Rightarrow> string + ServiceProviderEntry" where
  "createEntry env sp =
     (if MetadataFile sp \<noteq> '''' then
        (case ReadFile env (GetMetadataFilePath env sp) of
           Inl err \<Rightarrow> Inl (''failed to read metadata file: '' @ err)
         | Inr data \<Rightarrow>
             (case Unmarshal env data of
                Inl err \<Rightarrow> Inl (''failed to parse metadata: '' @ err)
              | Inr metadata \<Rightarrow> Inr \<lparr>Metadata = metadata, Config = sp\<rparr>))
      else if ACSURL sp \<noteq> '''' then
        Inr \<lparr>Metadata =
               \<lparr>md_EntityID = EntityID sp,
                SPSSODescriptors =
                  [\<lparr>AssertionConsumerServices =
                      [\<lparr>Binding = HTTPPostBinding, Location = ACSURL sp, Index = 1\<rparr>]\<rparr>]\<rparr>,
             Config = sp\<rparr>
      else Inl ''SP must have either acs_url or metadata_file'')"

text \<open>
  The loop of \<open>NewServiceProviderProvider\<close> over the configured list: the first entry
  that cannot be created ends it with an error that names the entry; every other entry
  is stored under its \<open>EntityID\<close>.
\<close>

fun NewServiceProviderProvider_loop ::
  "os_env \<Rightarrow> ServiceProviderProvider \<Rightarrow> ServiceProvider list \<Rightarrow> string + ServiceProviderProvider" where
  "NewServiceProviderProvider_loop env provider [] = Inr provider"
| "NewServiceProviderProvider_loop env provider (sp # rest) =
     (case createEntry env sp of
        Inl err \<Rightarrow> Inl (''failed to create SP entry for '' @ EntityID sp @ '': '' @ err)
      | Inr entry \<Rightarrow>
          NewServiceProviderProvider_loop env
            (provider\<lparr>sps := (sps provider)(EntityID sp \<mapsto> entry)\<rparr>) rest)"

definition NewServiceProviderProvider ::
  "os_env \<Rightarrow> ServiceProvider list \<Rightarrow> string + ServiceProviderProvider" where
  "NewServiceProviderProvider env configured =
     NewServiceProviderProvider_loop env \<lparr>sps = Map.empty\<rparr> configured"

text \<open>
  \<open>GetServiceProvider\<close> is the method through which the SAML library resolves the issuer
  of a request; it does not read the HTTP request it is given. Its error for an unknown
  identifier is \<open>os.ErrNotExist\<close>.
\<close>

definition ErrNotExist :: string where
  "ErrNotExist = ''file does not exist''"

definition GetServiceProvider ::
  "ServiceProviderProvider \<Rightarrow> 'r \<Rightarrow> string \<Rightarrow> string + EntityDescriptor" where
  "GetServiceProvider p r serviceProviderID =
     (case sps p serviceProviderID of
        None \<Rightarrow> Inl ErrNotExist
      | Some entry \<Rightarrow> Inr (Metadata entry))"

definition GetServiceProviderConfig ::
  "ServiceProviderProvider \<Rightarrow> string \<Rightarrow> ServiceProvider option" where
  "GetServiceProviderConfig p entityID =
     (case sps p entityID of
        None \<Rightarrow> None
      | Some entry \<Rightarrow> Some (Config entry))"

section \<open>The session provider and its pending requests\<close>

text \<open>
  A \<open>time.Time\<close> is a number of nanoseconds, a \<open>time.Duration\<close> too. Each call of
  \<open>time.Now()\<close> in the source is an argument of the function that makes it, in the order
  of the calls. Of a request of the SAML library the model keeps the issuer (the field
  \<open>Request.Issuer.Value\<close>), the metadata of the service provider, which is a pointer that
  is nil until the validation has resolved the issuer, and the rest of it, which this
  program only passes on. The request of a pending entry is a pointer that may be nil;
  its service provider is a pointer that \<open>handleSSO\<close> has checked not to be nil.
\<close>

type_synonym go_time = int

definition Minute :: int where
  "Minute = 60 * 1000000000"

record IdpAuthnRequest =
  Issuer :: string
  ServiceProviderMetadata :: "EntityDescriptor option"
  payload :: string

record SessionData =
  ID :: string
  SP :: ServiceProvider
  CreateTime :: go_time
  ExpireTime :: go_time
  SAMLRequest :: "IdpAuthnRequest option"

record SessionProvider =
  pendingRequests :: "string \<rightharpoonup> SessionData"

definition NewSessionProvider :: SessionProvider where
  "NewSessionProvider = \<lparr>pendingRequests = Map.empty\<rparr>"

record AttributeValue =
  Type :: string
  Value :: string

record Attribute =
  FriendlyName :: string
  attr_Name :: string
  NameFormat :: string
  Values :: "AttributeValue list"

record Session =
  sess_ID :: string
  sess_CreateTime :: go_time
  sess_ExpireTime :: go_time
  sess_Index :: string
  sess_NameID :: string
  sess_NameIDFormat :: string
  SubjectID :: string
  UserName :: string
  CustomAttributes :: "Attribute list option"

text \<open>\<open>GetSession\<close>: the writer, the request and the SAML request may each be nil.\<close>

definition GetSession ::
  "SessionProvider \<Rightarrow> 'w option \<Rightarrow> 'r option \<Rightarrow> IdpAuthnRequest option \<Rightarrow> Session option" where
  "GetSession sp w r req = None"

definition attributeValues :: "attr_value \<Rightarrow> AttributeValue list" where
  "attributeValues v =
     (case cast_ToStringSliceE v of
        Some strs \<Rightarrow>
          (if length strs > 0 then map (\<lambda>s. \<lparr>Type = ''xs:string'', Value = s\<rparr>) strs
           else [\<lparr>Type = ''xs:string'', Value = cast_ToString v\<rparr>])
      | None \<Rightarrow> [\<lparr>Type = ''xs:string'', Value = cast_ToString v\<rparr>])"

definition buildCustomAttributes :: "User option \<Rightarrow> Attribute list option" where
  "buildCustomAttributes user =
     (case user of
        None \<Rightarrow> None
      | Some u \<Rightarrow>
          (case Attributes u of
             None \<Rightarrow> None
           | Some kvs \<Rightarrow>
               Some (map (\<lambda>(name, v).
                       \<lparr>FriendlyName = name, attr_Name = name,
                        NameFormat = ''urn:oasis:names:tc:SAML:2.0:attrname-format:basic'',
                        Values = attributeValues v\<rparr>) kvs)))"

text \<open>
  The operations on the pending requests return the provider after the call, also the
  ones that only read it.
\<close>

definition StorePendingRequest ::
  "SessionProvider \<Rightarrow> string \<Rightarrow> IdpAuthnRequest option \<Rightarrow> ServiceProvider \<Rightarrow>
   go_time \<Rightarrow> go_time \<Rightarrow> SessionProvider" where
  "StorePendingRequest sp requestID req spConfig now1 now2 =
     sp\<lparr>pendingRequests := (pendingRequests sp)(requestID \<mapsto>
          \<lparr>ID = requestID, SP = spConfig, CreateTime = now1,
           ExpireTime = now2 + 10 * Minute, SAMLRequest = req\<rparr>)\<rparr>"

definition GetPendingRequest ::
  "SessionProvider \<Rightarrow> string \<Rightarrow> go_time \<Rightarrow> SessionData option \<times> SessionProvider" where
  "GetPendingRequest sp requestID now =
     (case pendingRequests sp requestID of
        None \<Rightarrow> (None, sp)
      | Some session \<Rightarrow>
          (if SAMLRequest session = None then (None, sp)
           else if ExpireTime session < now then (None, sp)
           else (Some session, sp)))"

definition DeletePendingRequest :: "SessionProvider \<Rightarrow> string \<Rightarrow> SessionProvider" where
  "DeletePendingRequest sp requestID =
     sp\<lparr>pendingRequests := (pendingRequests sp)(requestID := None)\<rparr>"

text \<open>
  The generator of request and session identifiers. \<open>randState\<close> is a package-level
  \<open>uint64\<close>; \<open>pseudoRand\<close> returns its upper 31 bits as a non-negative \<open>int\<close>.
\<close>

definition hexChars :: string where
  "hexChars = ''0123456789abcdef''"

definition pseudoRand :: "64 word \<Rightarrow> int \<times> 64 word" where
  "pseudoRand randState =
     (let randState' = randState * 6364136223846793005 + 1
      in (uint (drop_bit 33 randState'), randState'))"

fun randomHex :: "nat \<Rightarrow> 64 word \<Rightarrow> string \<times> 64 word" where
  "randomHex 0 randState = ([], randState)"
| "randomHex (Suc n) randState =
     (case pseudoRand randState of
        (r, randState') \<Rightarrow>
          (case randomHex n randState' of
             (rest, randState'') \<Rightarrow> (hexChars ! nat (r mod 16) # rest, randState'')))"

section \<open>The handlers (internal/idp/handlers.go)\<close>

text \<open>
  Of an HTTP request the handlers read the method, the query parameter \<open>request_id\<close>,
  whether \<open>ParseForm\<close> succeeds and the form value \<open>user\<close>; the SAML library reads the
  rest. A response is what the handler writes: \<open>http.Error\<close> with a message and a status,
  \<open>http.Redirect\<close> with a URL and a status, the login page with its data, or the SAML
  response that the library writes. \<open>Panic\<close> is a nil pointer dereference in the
  handler, which ends it without an answer. Log lines are left out.
\<close>

record Request =
  Method :: string
  query_request_id :: string
  ParseForm_ok :: bool
  FormValue_user :: string
  rest :: string

record LoginPageData =
  RequestID :: string
  SPName :: string
  page_Users :: "User list"

datatype response =
    Error string nat
  | Redirect string nat
  | LoginPage LoginPageData
  | SAMLResponse string
  | Panic

text \<open>
  What the SAML library and the template do on their own is a parameter:
  \<open>saml.NewIdpAuthnRequest\<close>, the checks of \<open>req.Validate\<close> that come before it resolves
  the issuer (\<open>CheckRequest\<close>: it decodes the request, which gives the issuer, and checks
  destination, issue instant and version), its check of the assertion consumer service
  after that (\<open>CheckACSEndpoint\<close>, with the error if there is one),
  \<open>DefaultAssertionMaker.MakeAssertion\<close>, \<open>req.WriteResponse\<close> (the body it writes) and
  whether \<open>template.ParseFS\<close> parses the login template.
\<close>

record saml_env =
  NewIdpAuthnRequest :: "Request \<Rightarrow> string + IdpAuthnRequest"
  CheckRequest :: "IdpAuthnRequest \<Rightarrow> string + IdpAuthnRequest"
  CheckACSEndpoint :: "IdpAuthnRequest \<Rightarrow> string option"
  MakeAssertion :: "IdpAuthnRequest option \<Rightarrow> Session \<Rightarrow> string + IdpAuthnRequest"
  WriteResponse :: "IdpAuthnRequest \<Rightarrow> string + string"
  ParseTemplate_ok :: bool

text \<open>
  The state of the server that the handlers change: the session provider and the state
  of the generator. The registry is built once and only read.
\<close>

record Server =
  spProvider :: ServiceProviderProvider
  sessionProvider :: SessionProvider
  randState :: "64 word"

text \<open>
  \<open>req.Validate\<close> of the SAML library (github.com/crewjam/saml v0.5.1 in go.mod, not part
  of this repository). The server hands its registry to the library as the
  \<open>ServiceProviderProvider\<close> of the identity provider (\<open>New\<close> in idp.go), and the
  validation resolves the issuer of the request in it with \<open>GetServiceProvider\<close>: an
  issuer without an entry is an error, and the metadata of the entry found become the
  \<open>ServiceProviderMetadata\<close> of the request. The texts of its errors are only logged.
\<close>

definition Validate ::
  "saml_env \<Rightarrow> ServiceProviderProvider \<Rightarrow> Request \<Rightarrow> IdpAuthnRequest \<Rightarrow>
   string + IdpAuthnRequest" where
  "Validate env provider r req0 =
     (case CheckRequest env req0 of
        Inl err \<Rightarrow> Inl err
      | Inr req \<Rightarrow>
          (case GetServiceProvider provider r (Issuer req) of
             Inl err \<Rightarrow>
               Inl (''cannot handle request from unknown service provider '' @ Issuer req)
           | Inr serviceProvider \<Rightarrow>
               (case CheckACSEndpoint env (req\<lparr>ServiceProviderMetadata := Some serviceProvider\<rparr>) of
                  Some err \<Rightarrow> Inl (''cannot find assertion consumer service: '' @ err)
                | None \<Rightarrow> Inr (req\<lparr>ServiceProviderMetadata := Some serviceProvider\<rparr>))))"

text \<open>
  \<open>handleSSO\<close>. It reads \<open>req.ServiceProviderMetadata.EntityID\<close> through the pointer. The
  request identifier consists of hexadecimal digits, which \<open>url.QueryEscape\<close> leaves as
  they are.
\<close>

definition handleSSO ::
  "saml_env \<Rightarrow> Server \<Rightarrow> Request \<Rightarrow> go_time \<Rightarrow> go_time \<Rightarrow> response \<times> Server" where
  "handleSSO env s r now1 now2 =
     (case NewIdpAuthnRequest env r of
        Inl err \<Rightarrow> (Error ''Invalid SAML request'' 400, s)
      | Inr req0 \<Rightarrow>
          (case Validate env (spProvider s) r req0 of
             Inl err \<Rightarrow> (Error ''Invalid SAML request'' 400, s)
           | Inr req \<Rightarrow>
               (case ServiceProviderMetadata req of
                  None \<Rightarrow> (Panic, s)
                | Some metadata \<Rightarrow>
                    (case GetServiceProviderConfig (spProvider s) (md_EntityID metadata) of
                       None \<Rightarrow> (Error ''Unknown service provider'' 400, s)
                     | Some spConfig \<Rightarrow>
                         (case randomHex 16 (randState s) of
                            (requestID, randState') \<Rightarrow>
                              (Redirect (''/login?request_id='' @ requestID) 302,
                               s\<lparr>sessionProvider :=
                                    StorePendingRequest (sessionProvider s) requestID (Some req)
                                      spConfig now1 now2,
                                 randState := randState'\<rparr>))))))"

definition showLoginPage ::
  "saml_env \<Rightarrow> Server \<Rightarrow> string \<Rightarrow> SessionData \<Rightarrow> response \<times> Server" where
  "showLoginPage env s requestID pendingSession =
     (if \<not> ParseTemplate_ok env then (Error ''Internal server error'' 500, s)
      else (LoginPage \<lparr>RequestID = requestID, SPName = EntityID (SP pendingSession),
                       page_Users = Users (SP pendingSession)\<rparr>, s))"

definition createAndSendResponse ::
  "saml_env \<Rightarrow> IdpAuthnRequest option \<Rightarrow> Session \<Rightarrow> response" where
  "createAndSendResponse env req session =
     (case MakeAssertion env req session of
        Inl err \<Rightarrow> Error ''Failed to create assertion'' 500
      | Inr req' \<Rightarrow>
          (case WriteResponse env req' of
             Inl err \<Rightarrow> Error ''Failed to send response'' 500
           | Inr body \<Rightarrow> SAMLResponse body))"

text \<open>
  The session that \<open>processLogin\<close> builds for a user, from the session identifier and
  the two readings of the clock.
\<close>

definition samlSession ::
  "string \<Rightarrow> SessionData \<Rightarrow> User \<Rightarrow> go_time \<Rightarrow> go_time \<Rightarrow> Session" where
  "samlSession sessionID pendingSession user now1 now2 =
     \<lparr>sess_ID = sessionID,
      sess_CreateTime = now1,
      sess_ExpireTime = now2 + 5 * Minute,
      sess_Index = sessionID,
      sess_NameID = NameID user,
      sess_NameIDFormat = GetNameIDFormat (NameIDFormat (SP pendingSession)),
      SubjectID = NameID user,
      UserName = Name user,
      CustomAttributes = buildCustomAttributes (Some user)\<rparr>"

definition processLogin ::
  "saml_env \<Rightarrow> Server \<Rightarrow> Request \<Rightarrow> string \<Rightarrow> SessionData \<Rightarrow> go_time \<Rightarrow> go_time \<Rightarrow>
   response \<times> Server" where
  "processLogin env s r requestID pendingSession now1 now2 =
     (if \<not> ParseForm_ok r then (Error ''Invalid form data'' 400, s)
      else if FormValue_user r = '''' then (Error ''No user selected'' 400, s)
      else
        (case GetUserByName (SP pendingSession) (FormValue_user r) of
           None \<Rightarrow> (Error ''Invalid user'' 400, s)
         | Some user \<Rightarrow>
             (case randomHex 32 (randState s) of
                (sessionID, randState') \<Rightarrow>
                  (createAndSendResponse env (SAMLRequest pendingSession)
                     (samlSession sessionID pendingSession user now1 now2),
                   s\<lparr>sessionProvider := DeletePendingRequest (sessionProvider s) requestID,
                     randState := randState'\<rparr>))))"

text \<open>
  \<open>handleLogin\<close>: \<open>now\<close> is the clock that \<open>GetPendingRequest\<close> reads, \<open>now1\<close> and \<open>now2\<close>
  are the two readings of \<open>processLogin\<close>.
\<close>

definition handleLogin ::
  "saml_env \<Rightarrow> Server \<Rightarrow> Request \<Rightarrow> go_time \<Rightarrow> go_time \<Rightarrow> go_time \<Rightarrow> response \<times> Server" where
  "handleLogin env s r now now1 now2 =
     (if query_request_id r = '''' then (Error ''Missing request_id'' 400, s)
      else
        (case GetPendingRequest (sessionProvider s) (query_request_id r) now of
           (None, sp') \<Rightarrow> (Error ''Invalid or expired request'' 400, s\<lparr>sessionProvider := sp'\<rparr>)
         | (Some pendingSession, sp') \<Rightarrow>
             (if Method r = ''GET'' then
                showLoginPage env (s\<lparr>sessionProvider := sp'\<rparr>) (query_request_id r) pendingSession
              else if Method r = ''POST'' then
                processLogin env (s\<lparr>sessionProvider := sp'\<rparr>) r (query_request_id r)
                  pendingSession now1 now2
              else (Error ''Method not allowed'' 405, s\<lparr>sessionProvider := sp'\<rparr>))))"

section \<open>Concrete inputs\<close>

text \<open>
  A service provider with one user, a validated request that names it, a library whose
  own checks accept every request, and servers with and without registry entries.
\<close>

definition ann :: User where
  "ann = \<lparr>Name = ''Ann'', NameID = ''ann@example.com'',
          Attributes = Some [(''role'', Scalar (SString ''admin''))]\<rparr>"

definition sp1 :: ServiceProvider where
  "sp1 = \<lparr>EntityID = ''sp-1'', ACSURL = ''https://sp-1.example.com/acs'', MetadataFile = '''',
          NameIDFormat = ''persistent'', Users = [ann], baseDir = ''''\<rparr>"

definition request_for :: "string \<Rightarrow> IdpAuthnRequest" where
  "request_for entityID =
     \<lparr>Issuer = entityID,
      ServiceProviderMetadata = Some \<lparr>md_EntityID = entityID, SPSSODescriptors = []\<rparr>,
      payload = ''authn-request''\<rparr>"

text \<open>A request as the library has decoded it, before the validation, from an issuer.\<close>

definition request_from :: "string \<Rightarrow> IdpAuthnRequest" where
  "request_from issuer =
     \<lparr>Issuer = issuer, ServiceProviderMetadata = None, payload = ''authn-request''\<rparr>"

definition accepting_library :: saml_env where
  "accepting_library =
     \<lparr>NewIdpAuthnRequest = (\<lambda>r. Inr (request_from (rest r))),
      CheckRequest = Inr,
      CheckACSEndpoint = (\<lambda>req. None),
      MakeAssertion = (\<lambda>req session.
        case req of None \<Rightarrow> Inl ''no request'' | Some q \<Rightarrow> Inr q),
      WriteResponse = (\<lambda>req. Inr (payload req)),
      ParseTemplate_ok = True\<rparr>"

definition no_files :: os_env where
  "no_files =
     \<lparr>IsAbs = (\<lambda>path. take 1 path = ''/''),
      Join = (\<lambda>base path. base @ ''/'' @ path),
      ReadFile = (\<lambda>path. Inl ''no such file or directory''),
      Unmarshal = (\<lambda>data. Inl ''EOF'')\<rparr>"

definition pending_store :: "string \<Rightarrow> ServiceProvider \<Rightarrow> SessionProvider" where
  "pending_store requestID spConfig =
     StorePendingRequest NewSessionProvider requestID (Some (request_for (EntityID spConfig)))
       spConfig 0 0"

definition server_with :: "SessionProvider \<Rightarrow> Server" where
  "server_with sp = \<lparr>spProvider = \<lparr>sps = Map.empty\<rparr>, sessionProvider = sp, randState = 1\<rparr>"

definition login_post :: "string \<Rightarrow> string \<Rightarrow> Request" where
  "login_post requestID user =
     \<lparr>Method = ''POST'', query_request_id = requestID, ParseForm_ok = True,
      FormValue_user = user, rest = ''''\<rparr>"

definition sso_request :: "string \<Rightarrow> Request" where
  "sso_request entityID =
     \<lparr>Method = ''GET'', query_request_id = '''', ParseForm_ok = True, FormValue_user = '''',
      rest = entityID\<rparr>"




text \<open>A service provider whose only user has the empty name.\<close>

definition nameless :: User where
  "nameless = \<lparr>Name = '''', NameID = ''anonymous'', Attributes = None\<rparr>"

definition sp_nameless :: ServiceProvider where
  "sp_nameless = sp1\<lparr>Users := [nameless]\<rparr>"

text \<open>
  A second configuration with the identifier of \<open>sp1\<close>, one with neither an endpoint nor
  a metadata file, one with an endpoint and a metadata file, and one like \<open>sp1\<close> with an
  identifier of its own.
\<close>

definition sp1_again :: ServiceProvider where
  "sp1_again = sp1\<lparr>ACSURL := ''https://sp-1.example.com/acs2''\<rparr>"

definition sp_bare :: ServiceProvider where
  "sp_bare = \<lparr>EntityID = ''bare'', ACSURL = '''', MetadataFile = '''',
              NameIDFormat = ''email'', Users = [], baseDir = ''''\<rparr>"

definition sp_file :: ServiceProvider where
  "sp_file = \<lparr>EntityID = ''sp-file'', ACSURL = ''https://sp-file.example.com/acs'',
              MetadataFile = ''sp-file.xml'', NameIDFormat = ''email'', Users = [],
              baseDir = ''/etc/idp''\<rparr>"

definition sp2 :: ServiceProvider where
  "sp2 = sp1\<lparr>EntityID := ''sp-2''\<rparr>"

text \<open>A string without white space: no suffix of it starts with a white-space character.\<close>

definition no_space :: "string \<Rightarrow> bool" where
  "no_space s \<longleftrightarrow> list_all (\<lambda>i. space_width (drop i s) = 0) [0..<length s]"

text \<open>
  A pending request stored at time 0: it expires 10 minutes later, at 600000000000.
\<close>

definition stored_entry :: SessionData where
  "stored_entry =
     \<lparr>ID = ''t'', SP = sp1, CreateTime = 0, ExpireTime = 600000000000,
      SAMLRequest = Some (request_for ''sp-1'')\<rparr>"

section \<open>Properties of the NameID formats\<close>

lemma NameIDFormats_distinct_values: "distinct (map snd NameIDFormats)"
  by (simp add: NameIDFormats_def EmailAddressNameIDFormat_def PersistentNameIDFormat_def
      TransientNameIDFormat_def UnspecifiedNameIDFormat_def)

lemma iteration_order_distinct:
  assumes "iteration_order order"
  shows "distinct (map snd order)"
proof -
  from assms have "mset (map snd order) = mset (map snd NameIDFormats)"
    unfolding iteration_order_def by (metis mset_map)
  then show ?thesis
    using NameIDFormats_distinct_values by (metis distinct_count_atmost_1 set_mset_mset)
qed

lemma iteration_order_set:
  "iteration_order order \<Longrightarrow> set order = set NameIDFormats"
  by (metis iteration_order_def set_mset_mset)

lemma GetNameIDFormatString_first_match:
  "distinct (map snd order) \<Longrightarrow> (name, f) \<in> set order \<Longrightarrow>
   GetNameIDFormatString order f = name"
proof (induction order)
  case Nil
  then show ?case by simp
next
  case (Cons e rest)
  obtain n g where e: "e = (n, g)" by (cases e)
  show ?case
  proof (cases "g = f")
    case True
    with Cons.prems e have "n = name" by (force simp: image_iff)
    with True e show ?thesis by simp
  next
    case False
    with Cons e show ?thesis by auto
  qed
qed

text \<open>
  C7. For each of the four keywords email, persistent, transient and unspecified, the
  keyword of the format of the keyword is the keyword again, in whatever order the
  runtime iterates over the map.
\<close>

theorem nameid_format_round_trip:
  assumes "iteration_order order"
    and "k \<in> {''email'', ''persistent'', ''transient'', ''unspecified''}"
  shows "GetNameIDFormatString order (GetNameIDFormat k) = k"
proof -
  from assms(2) have "(k, GetNameIDFormat k) \<in> set NameIDFormats"
    by (auto simp: GetNameIDFormat_def NameIDFormats_def)
  with assms(1) have "(k, GetNameIDFormat k) \<in> set order"
    by (simp add: iteration_order_set)
  with iteration_order_distinct [OF assms(1)] show ?thesis
    by (rule GetNameIDFormatString_first_match)
qed

theorem nameid_format_round_trip_witness:
  "iteration_order (rev NameIDFormats) \<and>
   GetNameIDFormatString (rev NameIDFormats) (GetNameIDFormat ''transient'') = ''transient''"
proof -
  have h: "iteration_order (rev NameIDFormats)"
    by (simp add: iteration_order_def)
  from nameid_format_round_trip [OF h, of "''transient''"] h show ?thesis
    by simp
qed

text \<open>
  C8. A keyword that is none of the four, the empty one included, has the format of
  \<open>email\<close>; the function has no error result.
\<close>

theorem nameid_format_default:
  assumes "format \<notin> {''email'', ''persistent'', ''transient'', ''unspecified''}"
  shows "GetNameIDFormat format = GetNameIDFormat ''email'' \<and>
         GetNameIDFormat format = EmailAddressNameIDFormat"
  using assms by (simp add: GetNameIDFormat_def NameIDFormats_def)

theorem nameid_format_default_witness:
  "GetNameIDFormat '''' = GetNameIDFormat ''email'' \<and>
   GetNameIDFormat '''' = EmailAddressNameIDFormat"
proof -
  have h: "'''' \<notin> {''email'', ''persistent'', ''transient'', ''unspecified''}"
    by simp
  from nameid_format_default [OF h] show ?thesis .
qed

section \<open>Properties of the pending requests\<close>

lemma pending_store_entry:
  "pendingRequests (pending_store ''t'' sp1) ''t'' = Some stored_entry"
  by (simp add: pending_store_def StorePendingRequest_def NewSessionProvider_def
      stored_entry_def Minute_def sp1_def)

lemma GetPendingRequest_deleted:
  "fst (GetPendingRequest (DeletePendingRequest sp requestID) requestID now) = None"
  by (simp add: GetPendingRequest_def DeletePendingRequest_def)

lemma GetPendingRequest_same_provider:
  "snd (GetPendingRequest sp requestID now) = sp"
  by (simp add: GetPendingRequest_def split: option.split)

lemma GetPendingRequest_found:
  "fst (GetPendingRequest sp requestID now) = Some session \<longleftrightarrow>
   pendingRequests sp requestID = Some session \<and> SAMLRequest session \<noteq> None \<and>
   now \<le> ExpireTime session"
  by (auto simp: GetPendingRequest_def split: option.splits)

text \<open>
  C2, as the code has it. \<open>GetPendingRequest\<close> finds nothing exactly when the request
  identifier has no entry, or the entry has no SAML request, or the entry's expiry time
  is before the current time. At the expiry time itself the entry is still found.
\<close>

theorem GetPendingRequest_not_found_iff:
  "fst (GetPendingRequest sp requestID now) = None \<longleftrightarrow>
   pendingRequests sp requestID = None \<or>
   (\<exists>session. pendingRequests sp requestID = Some session \<and>
      (SAMLRequest session = None \<or> ExpireTime session < now))"
  by (auto simp: GetPendingRequest_def split: option.splits)

text \<open>
  The claim of C2 as it is written asks for nothing to be found when the current time
  equals the expiry time. The entry stored at time 0 expires at 600000000000, and at that
  time it is found.
\<close>

theorem GetPendingRequest_at_expiry_counterexample:
  "pendingRequests (pending_store ''t'' sp1) ''t'' = Some stored_entry \<and>
   SAMLRequest stored_entry \<noteq> None \<and>
   600000000000 \<ge> ExpireTime stored_entry \<and>
   fst (GetPendingRequest (pending_store ''t'' sp1) ''t'' 600000000000) = Some stored_entry"
  by (simp add: GetPendingRequest_found pending_store_entry) (simp add: stored_entry_def)

text \<open>
  C9. \<open>GetPendingRequest\<close> leaves the provider as it is, whatever it returns: the same
  entries under the same identifiers. \<open>DeletePendingRequest\<close> removes the entry of its
  identifier and no other, and \<open>StorePendingRequest\<close> removes none.
\<close>

theorem GetPendingRequest_frame:
  "snd (GetPendingRequest sp requestID now) = sp \<and>
   pendingRequests (snd (GetPendingRequest sp requestID now)) = pendingRequests sp \<and>
   card (dom (pendingRequests (snd (GetPendingRequest sp requestID now)))) =
     card (dom (pendingRequests sp)) \<and>
   pendingRequests (DeletePendingRequest sp requestID) = (pendingRequests sp)(requestID := None) \<and>
   dom (pendingRequests (StorePendingRequest sp requestID req spConfig now1 now2)) =
     insert requestID (dom (pendingRequests sp))"
  by (simp add: GetPendingRequest_same_provider DeletePendingRequest_def StorePendingRequest_def)

lemma Validate_metadata:
  "Validate env provider r req0 = Inr req \<Longrightarrow>
   \<exists>entry. sps provider (Issuer req) = Some entry \<and>
     ServiceProviderMetadata req = Some (Metadata entry)"
  by (auto simp: Validate_def GetServiceProvider_def split: sum.splits option.splits)

lemma handleSSO_response:
  "(\<exists>msg. fst (handleSSO env s r now1 now2) = Error msg 400) \<or>
   (\<exists>requestID. fst (handleSSO env s r now1 now2) =
      Redirect (''/login?request_id='' @ requestID) 302)"
  by (auto simp: handleSSO_def split: sum.splits option.splits prod.splits
      dest: Validate_metadata)

text \<open>
  C10. \<open>GetSession\<close> returns nil for every provider, writer, request and SAML request,
  the nil ones included. No session is looked up by \<open>handleSSO\<close> either: it refuses the
  request or redirects to the login page, and never writes a SAML response itself.
\<close>

theorem GetSession_always_nil:
  "GetSession sp w r req = None \<and> GetSession sp None None None = None \<and>
   ((\<exists>msg. fst (handleSSO env s request now1 now2) = Error msg 400) \<or>
    (\<exists>requestID. fst (handleSSO env s request now1 now2) =
       Redirect (''/login?request_id='' @ requestID) 302))"
  using handleSSO_response [of env s request now1 now2] by (simp add: GetSession_def)

section \<open>Properties of the handlers\<close>

lemma GetUserByName_loop_None:
  "GetUserByName_loop us name = None \<longleftrightarrow> name \<notin> Name ` set us"
  by (induction us) auto

lemma GetUserByName_loop_Some:
  "GetUserByName_loop us name = Some u \<Longrightarrow> u \<in> set us \<and> Name u = name"
  by (induction us) (auto split: if_splits)

lemma GetUserByName_absent:
  "name \<notin> Name ` set (Users sp) \<Longrightarrow> GetUserByName sp name = None"
  by (simp add: GetUserByName_def GetUserByName_loop_None)

lemma GetUserByName_present:
  assumes "name \<in> Name ` set (Users sp)"
  obtains u where "GetUserByName sp name = Some u" and "u \<in> set (Users sp)" and "Name u = name"
proof -
  from assms have "GetUserByName_loop (Users sp) name \<noteq> None"
    by (simp add: GetUserByName_loop_None)
  then obtain u where "GetUserByName_loop (Users sp) name = Some u"
    by blast
  with that show thesis
    by (metis GetUserByName_def GetUserByName_loop_Some)
qed

lemma handleLogin_not_pending:
  assumes "query_request_id r \<noteq> ''''"
    and "fst (GetPendingRequest (sessionProvider s) (query_request_id r) now) = None"
  shows "handleLogin env s r now now1 now2 = (Error ''Invalid or expired request'' 400, s)"
proof -
  from assms(2) have "GetPendingRequest (sessionProvider s) (query_request_id r) now =
      (None, sessionProvider s)"
    by (metis GetPendingRequest_same_provider prod.collapse)
  with assms(1) show ?thesis
    by (simp add: handleLogin_def)
qed

lemma handleLogin_post:
  assumes "query_request_id r \<noteq> ''''"
    and "fst (GetPendingRequest (sessionProvider s) (query_request_id r) now) = Some pendingSession"
    and "Method r = ''POST''"
  shows "handleLogin env s r now now1 now2 =
         processLogin env s r (query_request_id r) pendingSession now1 now2"
proof -
  from assms(2) have "GetPendingRequest (sessionProvider s) (query_request_id r) now =
      (Some pendingSession, sessionProvider s)"
    by (metis GetPendingRequest_same_provider prod.collapse)
  with assms(1,3) show ?thesis
    by (simp add: handleLogin_def)
qed

lemma processLogin_user:
  assumes "ParseForm_ok r" and "FormValue_user r \<noteq> ''''"
    and "GetUserByName (SP pendingSession) (FormValue_user r) = Some user"
  shows "processLogin env s r requestID pendingSession now1 now2 =
         (createAndSendResponse env (SAMLRequest pendingSession)
            (samlSession (fst (randomHex 32 (randState s))) pendingSession user now1 now2),
          s\<lparr>sessionProvider := DeletePendingRequest (sessionProvider s) requestID,
            randState := snd (randomHex 32 (randState s))\<rparr>)"
  using assms by (simp add: processLogin_def split: prod.split)

lemma processLogin_no_user:
  assumes "ParseForm_ok r"
    and "GetUserByName (SP pendingSession) (FormValue_user r) = None"
  shows "processLogin env s r requestID pendingSession now1 now2 =
         (Error (if FormValue_user r = '''' then ''No user selected'' else ''Invalid user'') 400, s)"
  using assms by (simp add: processLogin_def)

lemma handleLogin_SAMLResponse_consumes:
  assumes "fst (handleLogin env s r now now1 now2) = SAMLResponse body"
  shows "query_request_id r \<noteq> '''' \<and>
         pendingRequests (sessionProvider (snd (handleLogin env s r now now1 now2)))
           (query_request_id r) = None"
proof -
  from assms have id: "query_request_id r \<noteq> ''''"
    by (auto simp: handleLogin_def)
  from assms id obtain pendingSession where
    found: "fst (GetPendingRequest (sessionProvider s) (query_request_id r) now) = Some pendingSession"
    by (cases "fst (GetPendingRequest (sessionProvider s) (query_request_id r) now)")
      (auto simp: handleLogin_not_pending)
  then have pair: "GetPendingRequest (sessionProvider s) (query_request_id r) now =
      (Some pendingSession, sessionProvider s)"
    by (metis GetPendingRequest_same_provider prod.collapse)
  from assms id pair have post: "Method r = ''POST''"
    by (auto simp: handleLogin_def showLoginPage_def split: if_splits)
  with assms id found have
    "fst (processLogin env s r (query_request_id r) pendingSession now1 now2) = SAMLResponse body"
    by (simp add: handleLogin_post)
  then have "snd (processLogin env s r (query_request_id r) pendingSession now1 now2) =
      s\<lparr>sessionProvider := DeletePendingRequest (sessionProvider s) (query_request_id r),
        randState := snd (randomHex 32 (randState s))\<rparr>"
    by (auto simp: processLogin_def split: if_splits option.splits prod.splits)
  with id found post show ?thesis
    by (simp add: handleLogin_post DeletePendingRequest_def)
qed

lemma Validate_unknown_issuer:
  assumes "CheckRequest env req0 = Inr req1" and "Issuer req1 \<notin> dom (sps provider)"
  shows "Validate env provider r req0 =
         Inl (''cannot handle request from unknown service provider '' @ Issuer req1)"
proof -
  from assms(2) have "sps provider (Issuer req1) = None"
    by blast
  with assms(1) show ?thesis
    by (simp add: Validate_def GetServiceProvider_def)
qed

lemma handleSSO_unregistered_issuer:
  assumes "NewIdpAuthnRequest env r = Inr req0"
    and "CheckRequest env req0 = Inr req1"
    and "Issuer req1 \<notin> dom (sps (spProvider s))"
  shows "handleSSO env s r now1 now2 = (Error ''Invalid SAML request'' 400, s)"
  using assms(1) Validate_unknown_issuer [OF assms(2,3), of r]
  by (simp add: handleSSO_def)


lemma handleSSO_known_service_provider:
  assumes "NewIdpAuthnRequest env r = Inr req0"
    and "Validate env (spProvider s) r req0 = Inr req"
    and "ServiceProviderMetadata req = Some metadata"
    and "GetServiceProviderConfig (spProvider s) (md_EntityID metadata) = Some spConfig"
  shows "handleSSO env s r now1 now2 =
         (Redirect (''/login?request_id='' @ fst (randomHex 16 (randState s))) 302,
          s\<lparr>sessionProvider :=
               StorePendingRequest (sessionProvider s) (fst (randomHex 16 (randState s)))
                 (Some req) spConfig now1 now2,
            randState := snd (randomHex 16 (randState s))\<rparr>)"
  using assms by (simp add: handleSSO_def split: prod.split)






text \<open>
  The claim of C6 as it is written asks for the answer "Unknown service provider" for
  every requester without a registry entry. The registry of the server is empty and
  the request comes from the issuer \<open>sp-2\<close>: the answer is "Invalid SAML request".
\<close>

theorem unregistered_issuer_counterexample:
  "Issuer (request_from ''sp-2'') \<notin> dom (sps (spProvider (server_with NewSessionProvider))) \<and>
   GetServiceProviderConfig (spProvider (server_with NewSessionProvider)) ''sp-2'' = None \<and>
   fst (handleSSO accepting_library (server_with NewSessionProvider) (sso_request ''sp-2'') 5 6) =
     Error ''Invalid SAML request'' 400 \<and>
   fst (handleSSO accepting_library (server_with NewSessionProvider) (sso_request ''sp-2'') 5 6) \<noteq>
     Error ''Unknown service provider'' 400"
proof -
  let ?empty = "server_with NewSessionProvider"
  have a: "Issuer (request_from ''sp-2'') \<notin> dom (sps (spProvider ?empty))"
    by (simp add: server_with_def)
  have b: "GetServiceProviderConfig (spProvider ?empty) ''sp-2'' = None"
    by (simp add: GetServiceProviderConfig_def server_with_def)
  have "handleSSO accepting_library ?empty (sso_request ''sp-2'') 5 6 =
      (Error ''Invalid SAML request'' 400, ?empty)"
    by (rule handleSSO_unregistered_issuer [where ?req0.0 = "request_from ''sp-2''"
          and ?req1.0 = "request_from ''sp-2''"])
      (simp_all add: accepting_library_def sso_request_def server_with_def)
  then have c: "fst (handleSSO accepting_library ?empty (sso_request ''sp-2'') 5 6) =
      Error ''Invalid SAML request'' 400"
    by simp
  from a b c show ?thesis
    by simp
qed

text \<open>
  C1. A pending request is used once. After \<open>DeletePendingRequest\<close> of an identifier,
  \<open>GetPendingRequest\<close> of it finds nothing. A request stored with a SAML request is found
  by a get up to its expiry time, and not by a get after the delete that follows. And
  when \<open>handleLogin\<close> has written a SAML response for a request identifier, the next
  \<open>handleLogin\<close> with that identifier answers 400 "Invalid or expired request".
\<close>

theorem pending_request_single_use:
  "fst (GetPendingRequest (DeletePendingRequest sp requestID) requestID now) = None \<and>
   (now \<le> now2 + 10 * Minute \<longrightarrow>
      (\<exists>session.
         fst (GetPendingRequest
                (StorePendingRequest sp requestID (Some req) spConfig now1 now2) requestID now) =
           Some session) \<and>
      fst (GetPendingRequest
             (DeletePendingRequest
                (snd (GetPendingRequest
                        (StorePendingRequest sp requestID (Some req) spConfig now1 now2)
                        requestID now))
                requestID)
             requestID now') = None) \<and>
   (fst (handleLogin env s r t t1 t2) = SAMLResponse body \<and>
    query_request_id r' = query_request_id r \<longrightarrow>
      fst (handleLogin env (snd (handleLogin env s r t t1 t2)) r' t' t1' t2') =
        Error ''Invalid or expired request'' 400)"
proof (intro conjI impI)
  show "fst (GetPendingRequest (DeletePendingRequest sp requestID) requestID now) = None"
    by (rule GetPendingRequest_deleted)
next
  assume "now \<le> now2 + 10 * Minute"
  then show "\<exists>session.
      fst (GetPendingRequest
             (StorePendingRequest sp requestID (Some req) spConfig now1 now2) requestID now) =
        Some session"
    by (simp add: GetPendingRequest_def StorePendingRequest_def)
next
  show "fst (GetPendingRequest
             (DeletePendingRequest
                (snd (GetPendingRequest
                        (StorePendingRequest sp requestID (Some req) spConfig now1 now2)
                        requestID now))
                requestID)
             requestID now') = None"
    by (rule GetPendingRequest_deleted)
next
  assume a: "fst (handleLogin env s r t t1 t2) = SAMLResponse body \<and>
    query_request_id r' = query_request_id r"
  let ?s' = "snd (handleLogin env s r t t1 t2)"
  from a handleLogin_SAMLResponse_consumes [of env s r t t1 t2 body]
  have id: "query_request_id r' \<noteq> ''''"
    and gone: "pendingRequests (sessionProvider ?s') (query_request_id r') = None"
    by simp_all
  from gone have "fst (GetPendingRequest (sessionProvider ?s') (query_request_id r') t') = None"
    by (simp add: GetPendingRequest_def)
  with id show "fst (handleLogin env ?s' r' t' t1' t2') = Error ''Invalid or expired request'' 400"
    by (simp add: handleLogin_not_pending)
qed

lemma stored_entry_found:
  "now \<le> 600000000000 \<Longrightarrow>
   fst (GetPendingRequest (sessionProvider (server_with (pending_store ''t'' sp1))) ''t'' now) =
     Some stored_entry"
  by (simp add: GetPendingRequest_found server_with_def pending_store_entry)
    (simp add: stored_entry_def)

lemma ann_found: "GetUserByName (SP stored_entry) ''Ann'' = Some ann"
  by (simp add: GetUserByName_def stored_entry_def sp1_def ann_def)

lemma accepting_library_response:
  "createAndSendResponse accepting_library (SAMLRequest stored_entry) session =
     SAMLResponse ''authn-request''"
  by (simp add: createAndSendResponse_def accepting_library_def stored_entry_def request_for_def)

lemma login_post_fields:
  "Method (login_post requestID user) = ''POST''"
  "query_request_id (login_post requestID user) = requestID"
  "ParseForm_ok (login_post requestID user)"
  "FormValue_user (login_post requestID user) = user"
  by (simp_all add: login_post_def)

lemma ann_login:
  assumes "now \<le> 600000000000"
  shows "fst (handleLogin accepting_library (server_with (pending_store ''t'' sp1))
                (login_post ''t'' ''Ann'') now now1 now2) = SAMLResponse ''authn-request''"
proof -
  let ?s = "server_with (pending_store ''t'' sp1)"
  let ?r = "login_post ''t'' ''Ann''"
  have id: "query_request_id ?r \<noteq> ''''"
    by (simp add: login_post_fields)
  have found: "fst (GetPendingRequest (sessionProvider ?s) (query_request_id ?r) now) =
      Some stored_entry"
    using stored_entry_found [OF assms] by (simp only: login_post_fields)
  have post: "Method ?r = ''POST''"
    by (simp only: login_post_fields)
  have user: "GetUserByName (SP stored_entry) (FormValue_user ?r) = Some ann"
    using ann_found by (simp only: login_post_fields)
  have form: "ParseForm_ok ?r" "FormValue_user ?r \<noteq> ''''"
    by (simp_all add: login_post_fields)
  show ?thesis
    unfolding handleLogin_post [OF id found post]
      processLogin_user [OF form user] fst_conv
    by (rule accepting_library_response)
qed

theorem pending_request_single_use_witness:
  "(1::int) \<le> 0 + 10 * Minute \<and>
   (\<exists>session. fst (GetPendingRequest
       (StorePendingRequest NewSessionProvider ''t'' (Some (request_for ''sp-1'')) sp1 0 0)
       ''t'' 1) = Some session) \<and>
   fst (GetPendingRequest
     (DeletePendingRequest
        (snd (GetPendingRequest
           (StorePendingRequest NewSessionProvider ''t'' (Some (request_for ''sp-1'')) sp1 0 0)
           ''t'' 1))
        ''t'')
     ''t'' 2) = None \<and>
   fst (handleLogin accepting_library (server_with (pending_store ''t'' sp1))
          (login_post ''t'' ''Ann'') 1 1 1) = SAMLResponse ''authn-request'' \<and>
   fst (handleLogin accepting_library
          (snd (handleLogin accepting_library (server_with (pending_store ''t'' sp1))
                  (login_post ''t'' ''Ann'') 1 1 1))
          (login_post ''t'' ''Ann'') 2 2 2) = Error ''Invalid or expired request'' 400"
proof -
  have h1: "(1::int) \<le> 0 + 10 * Minute"
    by (simp add: Minute_def)
  have h2: "fst (handleLogin accepting_library (server_with (pending_store ''t'' sp1))
      (login_post ''t'' ''Ann'') 1 1 1) = SAMLResponse ''authn-request''"
    by (rule ann_login) simp
  have h3: "query_request_id (login_post ''t'' ''Ann'') = query_request_id (login_post ''t'' ''Ann'')"
    by simp
  note inst = pending_request_single_use [where sp = NewSessionProvider and requestID = "''t''"
      and now = 1 and ?now2.0 = 0 and req = "request_for ''sp-1''" and spConfig = sp1 and ?now1.0 = 0
      and now' = 2 and env = accepting_library and s = "server_with (pending_store ''t'' sp1)"
      and r = "login_post ''t'' ''Ann''" and t = 1 and ?t1.0 = 1 and ?t2.0 = 1
      and body = "''authn-request''" and r' = "login_post ''t'' ''Ann''"
      and t' = 2 and t1' = 2 and t2' = 2]
  from inst h1 h2 h3
  show ?thesis by blast
qed

lemma pending_store_found:
  assumes "now \<le> 10 * Minute"
  shows "fst (GetPendingRequest (sessionProvider (server_with (pending_store requestID spConfig)))
                requestID now) =
         Some \<lparr>ID = requestID, SP = spConfig, CreateTime = 0, ExpireTime = 10 * Minute,
               SAMLRequest = Some (request_for (EntityID spConfig))\<rparr>"
  using assms
  by (simp add: GetPendingRequest_found server_with_def pending_store_def
      StorePendingRequest_def NewSessionProvider_def)

lemma handleLogin_no_user:
  assumes "query_request_id r \<noteq> ''''"
    and "fst (GetPendingRequest (sessionProvider s) (query_request_id r) now) = Some pendingSession"
    and "Method r = ''POST''" and "ParseForm_ok r"
    and "GetUserByName (SP pendingSession) (FormValue_user r) = None"
  shows "handleLogin env s r now now1 now2 =
         (Error (if FormValue_user r = '''' then ''No user selected'' else ''Invalid user'') 400, s)"
  unfolding handleLogin_post [OF assms(1-3)] by (rule processLogin_no_user [OF assms(4,5)])

lemma handleLogin_empty_user:
  assumes "query_request_id r \<noteq> ''''"
    and "fst (GetPendingRequest (sessionProvider s) (query_request_id r) now) = Some pendingSession"
    and "Method r = ''POST''" and "ParseForm_ok r" and "FormValue_user r = ''''"
  shows "handleLogin env s r now now1 now2 = (Error ''No user selected'' 400, s)"
  unfolding handleLogin_post [OF assms(1-3)] using assms(4,5) by (simp add: processLogin_def)

text \<open>
  C5, as the code has it. The request identifier has a pending request that
  \<open>GetPendingRequest\<close> finds. A POST whose user is not the name of a user of the entry's
  service provider is answered 400, "Invalid user" (or "No user selected" for the empty
  name), and the server is as before. A later POST with the name of a user, which is not
  the empty name, made while the entry is not expired, is answered with what the library
  writes for the session of that user, and the entry is deleted: a third request with
  the identifier is answered 400 "Invalid or expired request".
\<close>

theorem unknown_user_keeps_pending_request:
  assumes "query_request_id r \<noteq> ''''"
    and "fst (GetPendingRequest (sessionProvider s) (query_request_id r) now) = Some pendingSession"
    and "Method r = ''POST''" and "ParseForm_ok r"
    and "FormValue_user r \<notin> Name ` set (Users (SP pendingSession))"
    and "query_request_id r2 = query_request_id r"
    and "Method r2 = ''POST''" and "ParseForm_ok r2"
    and "FormValue_user r2 \<in> Name ` set (Users (SP pendingSession))"
    and "FormValue_user r2 \<noteq> ''''"
    and "t \<le> ExpireTime pendingSession"
    and "query_request_id r3 = query_request_id r"
  shows "handleLogin env s r now now1 now2 =
           (Error (if FormValue_user r = '''' then ''No user selected'' else ''Invalid user'') 400, s) \<and>
         (\<exists>user \<in> set (Users (SP pendingSession)).
            Name user = FormValue_user r2 \<and>
            fst (handleLogin env (snd (handleLogin env s r now now1 now2)) r2 t t1 t2) =
              createAndSendResponse env (SAMLRequest pendingSession)
                (samlSession (fst (randomHex 32 (randState s))) pendingSession user t1 t2)) \<and>
         pendingRequests (sessionProvider
           (snd (handleLogin env (snd (handleLogin env s r now now1 now2)) r2 t t1 t2)))
           (query_request_id r) = None \<and>
         fst (handleLogin env
           (snd (handleLogin env (snd (handleLogin env s r now now1 now2)) r2 t t1 t2))
           r3 t' t1' t2') = Error ''Invalid or expired request'' 400"
proof -
  let ?id = "query_request_id r"
  have first: "handleLogin env s r now now1 now2 =
      (Error (if FormValue_user r = '''' then ''No user selected'' else ''Invalid user'') 400, s)"
    using assms(1-5)
    by (simp add: handleLogin_post processLogin_no_user GetUserByName_absent)
  from assms(2) have entry: "pendingRequests (sessionProvider s) ?id = Some pendingSession"
    and req: "SAMLRequest pendingSession \<noteq> None"
    by (simp_all add: GetPendingRequest_found)
  with assms(11) have again:
    "fst (GetPendingRequest (sessionProvider s) (query_request_id r2) t) = Some pendingSession"
    by (simp add: GetPendingRequest_found assms(6))
  from assms(9) obtain user where
    user: "GetUserByName (SP pendingSession) (FormValue_user r2) = Some user"
      "user \<in> set (Users (SP pendingSession))" "Name user = FormValue_user r2"
    by (rule GetUserByName_present)
  have second: "handleLogin env s r2 t t1 t2 =
      (createAndSendResponse env (SAMLRequest pendingSession)
         (samlSession (fst (randomHex 32 (randState s))) pendingSession user t1 t2),
       s\<lparr>sessionProvider := DeletePendingRequest (sessionProvider s) ?id,
         randState := snd (randomHex 32 (randState s))\<rparr>)"
    using assms(1,6,7,8,10) again user(1)
    by (simp add: handleLogin_post processLogin_user)
  let ?s2 = "snd (handleLogin env s r2 t t1 t2)"
  from second have gone: "pendingRequests (sessionProvider ?s2) ?id = None"
    by (simp add: DeletePendingRequest_def)
  then have "fst (GetPendingRequest (sessionProvider ?s2) (query_request_id r3) t') = None"
    by (simp add: GetPendingRequest_def assms(12))
  with assms(1,12) have third:
    "fst (handleLogin env ?s2 r3 t' t1' t2') = Error ''Invalid or expired request'' 400"
    by (simp add: handleLogin_not_pending)
  from first second user(2,3) gone third show ?thesis
    by auto
qed

theorem unknown_user_keeps_pending_request_witness:
  "handleLogin accepting_library (server_with (pending_store ''t'' sp1))
     (login_post ''t'' ''Bob'') 1 1 1 =
     (Error ''Invalid user'' 400, server_with (pending_store ''t'' sp1)) \<and>
   fst (handleLogin accepting_library
          (snd (handleLogin accepting_library (server_with (pending_store ''t'' sp1))
                  (login_post ''t'' ''Bob'') 1 1 1))
          (login_post ''t'' ''Ann'') 2 2 2) = SAMLResponse ''authn-request'' \<and>
   fst (handleLogin accepting_library
          (snd (handleLogin accepting_library
                  (snd (handleLogin accepting_library (server_with (pending_store ''t'' sp1))
                          (login_post ''t'' ''Bob'') 1 1 1))
                  (login_post ''t'' ''Ann'') 2 2 2))
          (login_post ''t'' ''Ann'') 3 3 3) = Error ''Invalid or expired request'' 400"
proof -
  let ?s = "server_with (pending_store ''t'' sp1)"
  let ?bob = "login_post ''t'' ''Bob''"
  let ?ann = "login_post ''t'' ''Ann''"
  have h1: "query_request_id ?bob \<noteq> ''''"
    by (simp add: login_post_fields)
  have h2: "fst (GetPendingRequest (sessionProvider ?s) (query_request_id ?bob) 1) =
      Some stored_entry"
    using stored_entry_found [of 1] by (simp add: login_post_fields)
  have h3: "Method ?bob = ''POST''" and h4: "ParseForm_ok ?bob"
    by (simp_all add: login_post_fields)
  have h5: "FormValue_user ?bob \<notin> Name ` set (Users (SP stored_entry))"
    by (simp add: login_post_fields stored_entry_def sp1_def ann_def)
  have h6: "query_request_id ?ann = query_request_id ?bob"
    by (simp add: login_post_fields)
  have h7: "Method ?ann = ''POST''" and h8: "ParseForm_ok ?ann"
    by (simp_all add: login_post_fields)
  have h9: "FormValue_user ?ann \<in> Name ` set (Users (SP stored_entry))"
    by (simp add: login_post_fields stored_entry_def sp1_def ann_def)
  have h10: "FormValue_user ?ann \<noteq> ''''"
    by (simp add: login_post_fields)
  have h11: "2 \<le> ExpireTime stored_entry"
    by (simp add: stored_entry_def)
  note inst = unknown_user_keeps_pending_request [OF h1 h2 h3 h4 h5 h6 h7 h8 h9 h10 h11 h6,
      where env = accepting_library and ?now1.0 = 1 and ?now2.0 = 1 and ?t1.0 = 2 and ?t2.0 = 2
      and t' = 3 and t1' = 3 and t2' = 3]
  from inst [THEN conjunct1] have first:
    "handleLogin accepting_library ?s ?bob 1 1 1 = (Error ''Invalid user'' 400, ?s)"
    by (simp add: login_post_fields)
  from inst [THEN conjunct2, THEN conjunct1] have second:
    "fst (handleLogin accepting_library (snd (handleLogin accepting_library ?s ?bob 1 1 1))
       ?ann 2 2 2) = SAMLResponse ''authn-request''"
    by (auto simp only: accepting_library_response)
  note third = inst [THEN conjunct2, THEN conjunct2, THEN conjunct2]
  from first second third show ?thesis
    by (intro conjI)
qed

text \<open>
  The claim of C5 as it is written promises success for every display name that is
  present. A service provider whose user has the empty name: the pending request is
  found, a POST with a name that is not present leaves it in place, and the following
  POST with the empty name, which is present, is answered 400 "No user selected".
\<close>

theorem empty_user_name_counterexample:
  "fst (GetPendingRequest (sessionProvider (server_with (pending_store ''t'' sp_nameless)))
          ''t'' 1) \<noteq> None \<and>
   ''Bob'' \<notin> Name ` set (Users sp_nameless) \<and>
   '''' \<in> Name ` set (Users sp_nameless) \<and>
   handleLogin accepting_library (server_with (pending_store ''t'' sp_nameless))
     (login_post ''t'' ''Bob'') 1 1 1 =
     (Error ''Invalid user'' 400, server_with (pending_store ''t'' sp_nameless)) \<and>
   fst (handleLogin accepting_library
          (snd (handleLogin accepting_library (server_with (pending_store ''t'' sp_nameless))
                  (login_post ''t'' ''Bob'') 1 1 1))
          (login_post ''t'' '''') 2 2 2) = Error ''No user selected'' 400"
proof -
  let ?s = "server_with (pending_store ''t'' sp_nameless)"
  let ?e = "\<lparr>ID = ''t'', SP = sp_nameless, CreateTime = 0, ExpireTime = 10 * Minute,
             SAMLRequest = Some (request_for (EntityID sp_nameless))\<rparr>"
  have f1: "fst (GetPendingRequest (sessionProvider ?s) ''t'' 1) = Some ?e"
    by (rule pending_store_found) (simp add: Minute_def)
  have f2: "fst (GetPendingRequest (sessionProvider ?s) ''t'' 2) = Some ?e"
    by (rule pending_store_found) (simp add: Minute_def)
  have names: "''Bob'' \<notin> Name ` set (Users sp_nameless)" "'''' \<in> Name ` set (Users sp_nameless)"
    by (simp_all add: sp_nameless_def nameless_def)
  have absent: "GetUserByName (SP ?e) (FormValue_user (login_post ''t'' ''Bob'')) = None"
    using names(1) by (simp add: login_post_fields GetUserByName_absent)
  have bob: "handleLogin accepting_library ?s (login_post ''t'' ''Bob'') 1 1 1 =
      (Error ''Invalid user'' 400, ?s)"
    using handleLogin_no_user [where r = "login_post ''t'' ''Bob''" and s = ?s and now = 1
        and pendingSession = ?e and env = accepting_library and ?now1.0 = 1 and ?now2.0 = 1]
      f1 absent
    by (simp add: login_post_fields)
  have empty: "fst (handleLogin accepting_library ?s (login_post ''t'' '''') 2 2 2) =
      Error ''No user selected'' 400"
    using handleLogin_empty_user [where r = "login_post ''t'' ''''" and s = ?s and now = 2
        and pendingSession = ?e and env = accepting_library and ?now1.0 = 2 and ?now2.0 = 2] f2
    by (simp add: login_post_fields)
  from f1 names bob empty show ?thesis
    by simp
qed

section \<open>Properties of the attribute mapper\<close>

text \<open>
  What \<open>attributeValues\<close> does for a sequence, a boolean, an integer and a string without
  white space: one value for each element in order, and one value for a scalar.
\<close>

lemma attributeValues_Slice:
  "xs \<noteq> [] \<Longrightarrow>
   attributeValues (Slice xs) = map (\<lambda>x. \<lparr>Type = ''xs:string'', Value = scalar_ToString x\<rparr>) xs"
  by (simp add: attributeValues_def comp_def)

lemma attributeValues_Strings:
  "xs \<noteq> [] \<Longrightarrow>
   attributeValues (Strings xs) = map (\<lambda>s. \<lparr>Type = ''xs:string'', Value = s\<rparr>) xs"
  by (simp add: attributeValues_def)

lemma attributeValues_bool:
  "attributeValues (Scalar (SBool b)) =
     [\<lparr>Type = ''xs:string'', Value = (if b then ''true'' else ''false'')\<rparr>]"
  by (simp add: attributeValues_def)

lemma attributeValues_int:
  "attributeValues (Scalar (SInt i)) = [\<lparr>Type = ''xs:string'', Value = decimal_int i\<rparr>]"
  by (simp add: attributeValues_def)

lemma no_space_iff:
  "no_space s \<longleftrightarrow> (\<forall>i<length s. space_width (drop i s) = 0)"
  by (auto simp: no_space_def list_all_iff)

lemma Fields_loop_no_space:
  "\<forall>i<length s. space_width (drop i s) = 0 \<Longrightarrow>
   Fields_loop 0 cur s = (if cur @ s = [] then [] else [cur @ s])"
proof (induction s arbitrary: cur)
  case Nil
  then show ?case by simp
next
  case (Cons c cs)
  from Cons.prems [rule_format, of 0] have head: "space_width (c # cs) = 0"
    by simp
  have tail: "\<forall>i<length cs. space_width (drop i cs) = 0"
  proof (intro allI impI)
    fix i assume "i < length cs"
    with Cons.prems [rule_format, of "Suc i"] show "space_width (drop i cs) = 0"
      by simp
  qed
  from head Cons.IH [OF tail, of "cur @ [c]"] show ?case
    by (simp del: space_width.simps)
qed

lemma attributeValues_string_without_space:
  assumes "no_space s"
  shows "attributeValues (Scalar (SString s)) = [\<lparr>Type = ''xs:string'', Value = s\<rparr>]"
proof -
  from assms have "Fields_loop 0 [] s = (if s = [] then [] else [s])"
    using Fields_loop_no_space [of s "[]"] by (simp add: no_space_iff)
  then show ?thesis
    by (simp add: attributeValues_def strings_Fields_def)
qed

text \<open>
  C4. The claim asks for exactly one value, the string itself, for every single scalar.
  For a string with white space in it the code does not do this: \<open>cast.ToStringSliceE\<close>
  splits a string into its fields, so the one string \<open>Alice Admin\<close> becomes two values.
\<close>

theorem attributeValues_splits_string:
  "attributeValues (Scalar (SString ''Alice Admin'')) =
     [\<lparr>Type = ''xs:string'', Value = ''Alice''\<rparr>, \<lparr>Type = ''xs:string'', Value = ''Admin''\<rparr>]"
  by (simp add: attributeValues_def strings_Fields_def asciiSpace_def)

section \<open>Properties of the registry\<close>

lemma createEntry_Config:
  "createEntry env sp = Inr entry \<Longrightarrow> Config entry = sp"
  by (auto simp: createEntry_def split: if_splits sum.splits)

lemma createEntry_fails_iff:
  "isl (createEntry env sp) \<longleftrightarrow>
   (MetadataFile sp = '''' \<and> ACSURL sp = '''') \<or>
   (MetadataFile sp \<noteq> '''' \<and>
     (isl (ReadFile env (GetMetadataFilePath env sp)) \<or>
      (\<exists>data. ReadFile env (GetMetadataFilePath env sp) = Inr data \<and> isl (Unmarshal env data))))"
  by (auto simp: createEntry_def split: sum.splits)

lemma loop_append:
  "NewServiceProviderProvider_loop env p (xs @ ys) =
     (case NewServiceProviderProvider_loop env p xs of
        Inl err \<Rightarrow> Inl err
      | Inr p' \<Rightarrow> NewServiceProviderProvider_loop env p' ys)"
  by (induction xs arbitrary: p) (auto split: sum.splits)

lemma loop_fails_iff:
  "isl (NewServiceProviderProvider_loop env p configured) \<longleftrightarrow>
   (\<exists>sp \<in> set configured. isl (createEntry env sp))"
  by (induction configured arbitrary: p) (auto split: sum.splits)

lemma loop_error:
  "NewServiceProviderProvider_loop env p configured = Inl err \<Longrightarrow>
   \<exists>good bad rest cause.
     configured = good @ bad # rest \<and> (\<forall>g \<in> set good. \<not> isl (createEntry env g)) \<and>
     createEntry env bad = Inl cause \<and>
     err = ''failed to create SP entry for '' @ EntityID bad @ '': '' @ cause"
proof (induction configured arbitrary: p)
  case Nil
  then show ?case by simp
next
  case (Cons sp rest)
  show ?case
  proof (cases "createEntry env sp")
    case (Inl cause)
    with Cons.prems have "err = ''failed to create SP entry for '' @ EntityID sp @ '': '' @ cause"
      by simp
    with Inl have "sp # rest = [] @ sp # rest \<and> (\<forall>g \<in> set []. \<not> isl (createEntry env g)) \<and>
        createEntry env sp = Inl cause \<and>
        err = ''failed to create SP entry for '' @ EntityID sp @ '': '' @ cause"
      by simp
    then show ?thesis by blast
  next
    case (Inr entry)
    with Cons.prems have "NewServiceProviderProvider_loop env
        (p\<lparr>sps := (sps p)(EntityID sp \<mapsto> entry)\<rparr>) rest = Inl err"
      by simp
    from Cons.IH [OF this] obtain good bad rest' cause where
      *: "rest = good @ bad # rest'" "\<forall>g \<in> set good. \<not> isl (createEntry env g)"
        "createEntry env bad = Inl cause"
        "err = ''failed to create SP entry for '' @ EntityID bad @ '': '' @ cause"
      by blast
    with Inr have "sp # rest = (sp # good) @ bad # rest' \<and>
        (\<forall>g \<in> set (sp # good). \<not> isl (createEntry env g)) \<and>
        createEntry env bad = Inl cause \<and>
        err = ''failed to create SP entry for '' @ EntityID bad @ '': '' @ cause"
      by simp
    then show ?thesis by blast
  qed
qed

lemma loop_dom:
  "NewServiceProviderProvider_loop env p configured = Inr q \<Longrightarrow>
   dom (sps q) = dom (sps p) \<union> EntityID ` set configured"
proof (induction configured arbitrary: p)
  case Nil
  then show ?case by simp
next
  case (Cons sp rest)
  then show ?case
    by (cases "createEntry env sp") auto
qed

lemma loop_keeps:
  "NewServiceProviderProvider_loop env p configured = Inr q \<Longrightarrow>
   entityID \<notin> EntityID ` set configured \<Longrightarrow> sps q entityID = sps p entityID"
proof (induction configured arbitrary: p)
  case Nil
  then show ?case by simp
next
  case (Cons sp rest)
  then show ?case
    by (cases "createEntry env sp") auto
qed

lemma loop_last_wins:
  assumes "NewServiceProviderProvider_loop env p (before @ sp # after) = Inr q"
    and "EntityID sp \<notin> EntityID ` set after"
  shows "\<exists>entry. sps q (EntityID sp) = Some entry \<and> createEntry env sp = Inr entry"
proof -
  from assms(1) obtain p1 where
    p1: "NewServiceProviderProvider_loop env p1 (sp # after) = Inr q"
    by (auto simp: loop_append split: sum.splits)
  then obtain entry where entry: "createEntry env sp = Inr entry"
    and rest: "NewServiceProviderProvider_loop env
      (p1\<lparr>sps := (sps p1)(EntityID sp \<mapsto> entry)\<rparr>) after = Inr q"
    by (cases "createEntry env sp") auto
  from loop_keeps [OF rest assms(2)] have "sps q (EntityID sp) = Some entry"
    by simp
  with entry show ?thesis by blast
qed

text \<open>
  C3, as the code has it. The construction fails exactly when one of the configured
  entries cannot be created: it has neither a metadata file nor an ACS URL, or it names
  a metadata file that cannot be read or parsed. The error then names the \<open>EntityID\<close> of
  the first such entry. Two entries with the same \<open>EntityID\<close> do not make it fail: the
  registry has one entry for each \<open>EntityID\<close> of the list, the one of the last
  configuration with it; when the identifiers differ, that is one entry per configuration.
\<close>

theorem registry_construction:
  "(isl (NewServiceProviderProvider env configured) \<longleftrightarrow>
      (\<exists>sp \<in> set configured. isl (createEntry env sp))) \<and>
   (isl (createEntry env sp) \<longleftrightarrow>
      (MetadataFile sp = '''' \<and> ACSURL sp = '''') \<or>
      (MetadataFile sp \<noteq> '''' \<and>
        (isl (ReadFile env (GetMetadataFilePath env sp)) \<or>
         (\<exists>data. ReadFile env (GetMetadataFilePath env sp) = Inr data \<and>
            isl (Unmarshal env data))))) \<and>
   (\<forall>err. NewServiceProviderProvider env configured = Inl err \<longrightarrow>
      (\<exists>good bad rest cause.
         configured = good @ bad # rest \<and> (\<forall>g \<in> set good. \<not> isl (createEntry env g)) \<and>
         createEntry env bad = Inl cause \<and>
         err = ''failed to create SP entry for '' @ EntityID bad @ '': '' @ cause)) \<and>
   (\<forall>p. NewServiceProviderProvider env configured = Inr p \<longrightarrow>
      dom (sps p) = EntityID ` set configured \<and>
      (\<forall>before c after.
         configured = before @ c # after \<and> EntityID c \<notin> EntityID ` set after \<longrightarrow>
         (\<exists>entry. sps p (EntityID c) = Some entry \<and> createEntry env c = Inr entry \<and>
            Config entry = c)) \<and>
      (distinct (map EntityID configured) \<longrightarrow> card (dom (sps p)) = length configured))"
proof (intro conjI allI impI)
  show "isl (NewServiceProviderProvider env configured) \<longleftrightarrow>
      (\<exists>sp \<in> set configured. isl (createEntry env sp))"
    by (simp add: NewServiceProviderProvider_def loop_fails_iff)
next
  show "isl (createEntry env sp) \<longleftrightarrow>
      (MetadataFile sp = '''' \<and> ACSURL sp = '''') \<or>
      (MetadataFile sp \<noteq> '''' \<and>
        (isl (ReadFile env (GetMetadataFilePath env sp)) \<or>
         (\<exists>data. ReadFile env (GetMetadataFilePath env sp) = Inr data \<and>
            isl (Unmarshal env data))))"
    by (rule createEntry_fails_iff)
next
  fix err assume "NewServiceProviderProvider env configured = Inl err"
  then show "\<exists>good bad rest cause.
         configured = good @ bad # rest \<and> (\<forall>g \<in> set good. \<not> isl (createEntry env g)) \<and>
         createEntry env bad = Inl cause \<and>
         err = ''failed to create SP entry for '' @ EntityID bad @ '': '' @ cause"
    unfolding NewServiceProviderProvider_def by (rule loop_error)
next
  fix p assume ok: "NewServiceProviderProvider env configured = Inr p"
  then have loop: "NewServiceProviderProvider_loop env \<lparr>sps = Map.empty\<rparr> configured = Inr p"
    by (simp add: NewServiceProviderProvider_def)
  from loop_dom [OF loop] show d: "dom (sps p) = EntityID ` set configured"
    by simp
  {
    assume "distinct (map EntityID configured)"
    then have "card (set (map EntityID configured)) = length (map EntityID configured)"
      by (rule distinct_card)
    with d show "card (dom (sps p)) = length configured"
      by simp
  }
  fix before c after
  assume "configured = before @ c # after \<and> EntityID c \<notin> EntityID ` set after"
  with loop have "NewServiceProviderProvider_loop env \<lparr>sps = Map.empty\<rparr> (before @ c # after) = Inr p"
    and "EntityID c \<notin> EntityID ` set after"
    by simp_all
  from loop_last_wins [OF this] obtain entry where
    "sps p (EntityID c) = Some entry" "createEntry env c = Inr entry"
    by blast
  moreover from this(2) have "Config entry = c"
    by (rule createEntry_Config)
  ultimately show "\<exists>entry. sps p (EntityID c) = Some entry \<and> createEntry env c = Inr entry \<and>
      Config entry = c"
    by blast
qed

lemma example_providers:
  "\<not> isl (createEntry env sp1)" "\<not> isl (createEntry env sp1_again)"
  "\<not> isl (createEntry env sp2)" "isl (createEntry env sp_bare)"
  "EntityID sp1 = ''sp-1''" "EntityID sp1_again = ''sp-1''" "EntityID sp2 = ''sp-2''"
  by (simp_all add: createEntry_def sp1_def sp1_again_def sp2_def sp_bare_def)

theorem registry_construction_witness:
  "isl (NewServiceProviderProvider no_files [sp1, sp_bare]) \<and>
   dom (sps (projr (NewServiceProviderProvider no_files [sp1, sp1_again]))) = {''sp-1''} \<and>
   Config (the (sps (projr (NewServiceProviderProvider no_files [sp1, sp1_again])) ''sp-1'')) =
     sp1_again \<and>
   card (dom (sps (projr (NewServiceProviderProvider no_files [sp1, sp2])))) = 2"
proof -
  let ?twice = "NewServiceProviderProvider no_files [sp1, sp1_again]"
  let ?two = "NewServiceProviderProvider no_files [sp1, sp2]"
  note failing = registry_construction [where env = no_files and configured = "[sp1, sp_bare]"]
  note twice = registry_construction [where env = no_files and configured = "[sp1, sp1_again]"]
  note two = registry_construction [where env = no_files and configured = "[sp1, sp2]"]
  have "\<exists>sp \<in> set [sp1, sp_bare]. isl (createEntry no_files sp)"
    by (simp add: example_providers)
  with failing [THEN conjunct1]
  have fails: "isl (NewServiceProviderProvider no_files [sp1, sp_bare])"
    by (rule iffD2)
  have "\<not> (\<exists>sp \<in> set [sp1, sp1_again]. isl (createEntry no_files sp))"
    by (simp add: example_providers)
  with twice [THEN conjunct1] have "\<not> isl ?twice"
    by blast
  then have eq1: "?twice = Inr (projr ?twice)"
    by (cases ?twice) simp_all
  note ok1 = twice [THEN conjunct2, THEN conjunct2, THEN conjunct2, THEN spec, THEN mp, OF eq1]
  from ok1 [THEN conjunct1] have dom1: "dom (sps (projr ?twice)) = {''sp-1''}"
    by (simp add: example_providers)
  have split: "[sp1, sp1_again] = [sp1] @ sp1_again # [] \<and>
      EntityID sp1_again \<notin> EntityID ` set []"
    by simp
  from ok1 [THEN conjunct2, THEN conjunct1, THEN spec, THEN spec, THEN spec, THEN mp, OF split]
  obtain entry where "sps (projr ?twice) (EntityID sp1_again) = Some entry"
    and "Config entry = sp1_again"
    by blast
  then have last: "Config (the (sps (projr ?twice) ''sp-1'')) = sp1_again"
    by (simp add: example_providers)
  have "\<not> (\<exists>sp \<in> set [sp1, sp2]. isl (createEntry no_files sp))"
    by (simp add: example_providers)
  with two [THEN conjunct1] have "\<not> isl ?two"
    by blast
  then have eq2: "?two = Inr (projr ?two)"
    by (cases ?two) simp_all
  note ok2 = two [THEN conjunct2, THEN conjunct2, THEN conjunct2, THEN spec, THEN mp, OF eq2]
  have "distinct (map EntityID [sp1, sp2])"
    by (simp add: example_providers)
  with ok2 [THEN conjunct2, THEN conjunct2] have "card (dom (sps (projr ?two))) = length [sp1, sp2]"
    by (rule mp)
  then have card2: "card (dom (sps (projr ?two))) = 2"
    by simp
  from fails dom1 last card2 show ?thesis
    by (intro conjI)
qed

text \<open>
  The claim of C3 as it is written asks for a failure when two entries have the same
  identifier, and for success when every entry names an endpoint or a metadata file.
  Two configurations with the identifier \<open>sp-1\<close> are accepted, and a configuration
  with an endpoint and a metadata file that cannot be read is refused.
\<close>

theorem duplicate_entity_id_counterexample:
  "EntityID sp1 = EntityID sp1_again \<and> sp1 \<noteq> sp1_again \<and>
   \<not> isl (NewServiceProviderProvider no_files [sp1, sp1_again]) \<and>
   ACSURL sp_file \<noteq> '''' \<and> MetadataFile sp_file \<noteq> '''' \<and>
   isl (NewServiceProviderProvider no_files [sp_file])"
  by (simp add: NewServiceProviderProvider_def createEntry_def no_files_def
      sp1_def sp1_again_def sp_file_def)

end
